theory Spec2Isabelle
  imports Main
begin

section \<open>Values\<close>

text \<open>
  The mapping layer of \<^verbatim>\<open>src/lib/ipsoObject.ts\<close> works on untyped JavaScript values.
  A value is a primitive, an array, a plain object (its own enumerable properties in
  enumeration order) or a Domain Object, i.e. an instance of a subclass of
  \<^verbatim>\<open>IPSOObject\<close>, possibly behind the \<^verbatim>\<open>Proxy\<close> that \<^verbatim>\<open>createProxy\<close> builds.

  Arrays and objects are reference types: \<^verbatim>\<open>===\<close> compares their identity, not their
  content. Every such value carries an identity. \<open>Loc n\<close> is the identity of an object
  that exists before the operation under study starts; \<open>Fresh\<close> marks an object the
  operation allocates itself (\<^verbatim>\<open>{}\<close>, \<^verbatim>\<open>Array.prototype.map\<close>, \<^verbatim>\<open>new Proxy\<close>), which is
  identical to no object that existed before.

  Numbers are integers here (no fractions, no \<^verbatim>\<open>NaN\<close>), property keys are strings (no
  symbols), object graphs are trees (no cycles), and a data property never has the
  name of a method of the class.
\<close>

datatype ident = Loc nat | Fresh

datatype jsval =
    JUndefined
  | JNull
  | JBool bool
  | JNum int
  | JStr string
  | JArr ident "jsval list"
  | JObj ident "(string \<times> jsval) list"
  | JIpso ipso
and ipso =
    Raw ident string "(string \<times> jsval) list"
  | Proxy ident ipso

type_synonym props = "(string \<times> jsval) list"

datatype error = ArrayMismatch | TypeError

text \<open>\<^verbatim>\<open>v == null\<close>: true of \<^verbatim>\<open>null\<close> and \<^verbatim>\<open>undefined\<close> only.\<close>

fun is_nullish :: "jsval \<Rightarrow> bool" where
  "is_nullish JUndefined = True"
| "is_nullish JNull = True"
| "is_nullish _ = False"

text \<open>Truthiness, as \<^verbatim>\<open>if (v)\<close>, \<^verbatim>\<open>!v\<close> and \<^verbatim>\<open>v ? a : b\<close> read a value.\<close>

fun truthy :: "jsval \<Rightarrow> bool" where
  "truthy JUndefined = False"
| "truthy JNull = False"
| "truthy (JBool b) = b"
| "truthy (JNum n) = (n \<noteq> 0)"
| "truthy (JStr s) = (s \<noteq> [])"
| "truthy _ = True"

fun ident_of :: "jsval \<Rightarrow> ident option" where
  "ident_of (JArr a _) = Some a"
| "ident_of (JObj a _) = Some a"
| "ident_of (JIpso (Raw a _ _)) = Some a"
| "ident_of (JIpso (Proxy a _)) = Some a"
| "ident_of _ = None"

text \<open>
  \<^verbatim>\<open>a === b\<close>. Primitives compare by value, reference types by identity (one identity
  names one object); a \<open>Fresh\<close> object is identical to nothing that is read from another
  place.
\<close>

fun strict_eq :: "jsval \<Rightarrow> jsval \<Rightarrow> bool" where
  "strict_eq JUndefined JUndefined = True"
| "strict_eq JNull JNull = True"
| "strict_eq (JBool a) (JBool b) = (a = b)"
| "strict_eq (JNum a) (JNum b) = (a = b)"
| "strict_eq (JStr a) (JStr b) = (a = b)"
| "strict_eq a b =
     (case (ident_of a, ident_of b) of
        (Some (Loc i), Some (Loc j)) \<Rightarrow> i = j
      | _ \<Rightarrow> False)"

text \<open>\<^verbatim>\<open>typeof v === "object"\<close>: \<^verbatim>\<open>null\<close>, arrays, plain objects and instances.\<close>

fun is_object :: "jsval \<Rightarrow> bool" where
  "is_object JNull = True"
| "is_object (JArr _ _) = True"
| "is_object (JObj _ _) = True"
| "is_object (JIpso _) = True"
| "is_object _ = False"

text \<open>\<^verbatim>\<open>v instanceof Array\<close>.\<close>

fun is_array :: "jsval \<Rightarrow> bool" where
  "is_array (JArr _ _) = True"
| "is_array _ = False"

text \<open>\<^verbatim>\<open>v instanceof IPSOObject\<close>; a proxy answers for its target.\<close>

fun is_ipso :: "jsval \<Rightarrow> bool" where
  "is_ipso (JIpso _) = True"
| "is_ipso _ = False"

text \<open>A property lookup in a list of own properties; an absent one reads \<^verbatim>\<open>undefined\<close>.\<close>

definition prop_get :: "props \<Rightarrow> string \<Rightarrow> jsval" where
  "prop_get ps k = (case map_of ps k of Some v \<Rightarrow> v | None \<Rightarrow> JUndefined)"

definition prop_has :: "props \<Rightarrow> string \<Rightarrow> bool" where
  "prop_has ps k = (k \<in> set (map fst ps))"

text \<open>
  \<^verbatim>\<open>o[k] = v\<close> on the own properties of an object: an existing property keeps its
  place in the enumeration order, a new one goes last.
\<close>

fun prop_set :: "props \<Rightarrow> string \<Rightarrow> jsval \<Rightarrow> props" where
  "prop_set [] k v = [(k, v)]"
| "prop_set ((k', v') # ps) k v =
     (if k' = k then (k, v) # ps else (k', v') # prop_set ps k v)"

section \<open>The transparent access layer\<close>

text \<open>
  \<^verbatim>\<open>createProxy()\<close> with no custom traps: a new \<^verbatim>\<open>Proxy\<close> object over \<^verbatim>\<open>this\<close>.
\<close>

definition createProxy :: "ipso \<Rightarrow> ipso" where
  "createProxy this = Proxy Fresh this"

text \<open>
  \<^verbatim>\<open>this.isProxy\<close> and \<^verbatim>\<open>this.underlyingObject\<close>. The \<^verbatim>\<open>get\<close> trap answers both before
  anything else; on an instance they are ordinary own properties (\<^verbatim>\<open>isProxy\<close> is
  initialised to \<^verbatim>\<open>false\<close>, \<^verbatim>\<open>underlyingObject\<close> is normally absent).
\<close>

fun isProxy :: "ipso \<Rightarrow> jsval" where
  "isProxy (Proxy _ me) = JBool True"
| "isProxy (Raw _ _ ps) = prop_get ps ''isProxy''"

fun underlyingObject :: "ipso \<Rightarrow> jsval" where
  "underlyingObject (Proxy _ me) = JIpso me"
| "underlyingObject (Raw _ _ ps) = prop_get ps ''underlyingObject''"

text \<open>
  \<^verbatim>\<open>unproxy()\<close>. Read off a proxy, the method is the target's (\<^verbatim>\<open>me.unproxy\<close>), called
  with the proxy as \<^verbatim>\<open>this\<close>.
\<close>

definition unproxy :: "ipso \<Rightarrow> jsval" where
  "unproxy this = (if truthy (isProxy this) then underlyingObject this else JIpso this)"

text \<open>\<^verbatim>\<open>d.createProxy()\<close> for an array element \<^verbatim>\<open>d\<close>: a \<^verbatim>\<open>TypeError\<close> unless it is an instance.\<close>

fun proxy_items :: "jsval list \<Rightarrow> error + jsval list" where
  "proxy_items [] = Inr []"
| "proxy_items (JIpso d # ds) =
     (case proxy_items ds of Inl e \<Rightarrow> Inl e | Inr r \<Rightarrow> Inr (JIpso (createProxy d) # r))"
| "proxy_items (_ # ds) = Inl TypeError"

text \<open>
  What the default \<^verbatim>\<open>get\<close> trap does with the data \<^verbatim>\<open>me[key]\<close>: a non-empty array whose
  first element is an instance is mapped to proxies, an instance is wrapped, everything
  else is passed through.
\<close>

fun proxy_wrap :: "jsval \<Rightarrow> error + jsval" where
  "proxy_wrap (JArr a (JIpso d # ds)) =
     (case proxy_items (JIpso d # ds) of Inl e \<Rightarrow> Inl e | Inr r \<Rightarrow> Inr (JArr Fresh r))"
| "proxy_wrap (JIpso x) = Inr (JIpso (createProxy x))"
| "proxy_wrap v = Inr v"

text \<open>\<^verbatim>\<open>this[key]\<close> for a data property \<^verbatim>\<open>key\<close>, on an instance or through the \<^verbatim>\<open>get\<close> trap.\<close>

fun get_member :: "ipso \<Rightarrow> string \<Rightarrow> error + jsval" where
  "get_member (Raw _ _ ps) key = Inr (prop_get ps key)"
| "get_member (Proxy _ me) key =
     (if key = ''isProxy'' then Inr (JBool True)
      else if key = ''underlyingObject'' then Inr (JIpso me)
      else (case get_member me key of Inl e \<Rightarrow> Inl e | Inr v \<Rightarrow> proxy_wrap v))"

text \<open>\<^verbatim>\<open>this.hasOwnProperty(key)\<close>: a proxy without that trap answers for its target.\<close>

fun has_own :: "ipso \<Rightarrow> string \<Rightarrow> bool" where
  "has_own (Raw _ _ ps) key = prop_has ps key"
| "has_own (Proxy _ me) key = has_own me key"

text \<open>\<^verbatim>\<open>this[key] = value\<close>: the default \<^verbatim>\<open>set\<close> trap writes to the target.\<close>

fun set_member :: "ipso \<Rightarrow> string \<Rightarrow> jsval \<Rightarrow> ipso" where
  "set_member (Raw a c ps) key v = Raw a c (prop_set ps key v)"
| "set_member (Proxy a me) key v = Proxy a (set_member me key v)"

text \<open>\<^verbatim>\<open>this.constructor\<close>, by its name; a proxy hands out its target's.\<close>

fun class_of :: "ipso \<Rightarrow> string" where
  "class_of (Raw _ c _) = c"
| "class_of (Proxy _ me) = class_of me"

text \<open>The own properties of the instance behind all proxies.\<close>

fun own_props :: "ipso \<Rightarrow> props" where
  "own_props (Raw _ _ ps) = ps"
| "own_props (Proxy _ me) = own_props me"

section \<open>merge\<close>

text \<open>
  Modelled from the spec: \<^verbatim>\<open>entries\<close> of \<^verbatim>\<open>./object-polyfill\<close> is not among the sources.
  \<^verbatim>\<open>parse\<close> and \<^verbatim>\<open>merge\<close> loop over the \<^verbatim>\<open>[key, value]\<close> pairs it yields for an object
  (``for every \<^verbatim>\<open>(key, value)\<close> pair'', ``for every field present in \<^verbatim>\<open>partial\<close>''): the own
  properties in enumeration order, which is how a plain object is represented here.
\<close>

definition entries :: "props \<Rightarrow> props" where
  "entries obj = obj"

text \<open>The loop of \<^verbatim>\<open>merge\<close>, and \<^verbatim>\<open>merge\<close> itself, which returns \<^verbatim>\<open>this\<close>.\<close>

fun merge_entries :: "ipso \<Rightarrow> props \<Rightarrow> ipso" where
  "merge_entries this [] = this"
| "merge_entries this ((key, v) # rest) =
     merge_entries (if has_own this key then set_member this key v else this) rest"

definition merge :: "ipso \<Rightarrow> props \<Rightarrow> ipso" where
  "merge this obj = merge_entries this (entries obj)"

section \<open>Field metadata\<close>

text \<open>
  A transform is a kernel \<^verbatim>\<open>(value, parent) => any\<close> with the two flags
  \<^verbatim>\<open>buildPropertyTransform\<close> attaches. Kernels and required-predicates are code of the
  subclasses; they are taken as total functions.
\<close>

record transform =
  kernel :: "jsval \<Rightarrow> ipso \<Rightarrow> jsval"
  neverSkip :: bool
  splitArrays :: bool

definition buildPropertyTransform ::
  "(jsval \<Rightarrow> ipso \<Rightarrow> jsval) \<Rightarrow> bool option \<Rightarrow> bool option \<Rightarrow> transform" where
  "buildPropertyTransform k optSplitArrays optNeverSkip =
     \<lparr> kernel = k,
       neverSkip = (case optNeverSkip of None \<Rightarrow> False | Some b \<Rightarrow> b),
       splitArrays = (case optSplitArrays of None \<Rightarrow> True | Some b \<Rightarrow> b) \<rparr>"

text \<open>\<^verbatim>\<open>@required(predicate)\<close>: a boolean, or a predicate of the instance and the reference.\<close>

datatype required_rule = ReqBool bool | ReqPred "ipso \<Rightarrow> jsval \<Rightarrow> bool"

text \<open>
  The metadata \<^verbatim>\<open>Reflect.getMetadata\<close> finds for a class, one table per decorator.
  \<open>ipsoKeyMeta\<close> holds both directions (\<^verbatim>\<open>metadata[property] = key\<close>,
  \<^verbatim>\<open>metadata[key] = property\<close>); \<open>designType\<close> is the name of the \<^verbatim>\<open>design:type\<close> of a
  decorated property of the subclass.
\<close>

record class_meta =
  ipsoKeyMeta :: "string \<rightharpoonup> string"
  requiredMeta :: "string \<rightharpoonup> required_rule"
  serializeWithMeta :: "string \<rightharpoonup> transform"
  deserializeWithMeta :: "string \<rightharpoonup> transform"
  doNotSerializeMeta :: "string set"
  designType :: "string \<rightharpoonup> string"

type_synonym class_table = "string \<Rightarrow> class_meta"

text \<open>A key that is \<^verbatim>\<open>null\<close> reads as the property name \<^verbatim>\<open>"null"\<close>.\<close>

definition key_string :: "string option \<Rightarrow> string" where
  "key_string k = (case k of None \<Rightarrow> ''null'' | Some s \<Rightarrow> s)"

definition lookupKeyOrProperty :: "class_table \<Rightarrow> ipso \<Rightarrow> string \<Rightarrow> string option" where
  "lookupKeyOrProperty ct target keyOrProperty =
     ipsoKeyMeta (ct (class_of target)) keyOrProperty"

text \<open>
  \<^verbatim>\<open>isRequired\<close>. Its trace message (\<^verbatim>\<open>log(..., "silly")\<close>) is not recorded. The
  property is the result of a lookup where \<^verbatim>\<open>isSerializedObjectEmpty\<close> calls it, hence
  possibly \<^verbatim>\<open>null\<close>.
\<close>

definition isRequired :: "class_table \<Rightarrow> ipso \<Rightarrow> jsval \<Rightarrow> string option \<Rightarrow> bool" where
  "isRequired ct target reference property =
     (case requiredMeta (ct (class_of target)) (key_string property) of
        Some (ReqBool b) \<Rightarrow> b
      | Some (ReqPred f) \<Rightarrow> f target reference
      | None \<Rightarrow> False)"

text \<open>
  \<^verbatim>\<open>IPSOObject\<close> itself decorates \<^verbatim>\<open>options\<close>, \<^verbatim>\<open>isProxy\<close> and \<^verbatim>\<open>client\<close> with
  \<^verbatim>\<open>@doNotSerialize\<close>; every subclass inherits that, and the design types the decorator
  records for them.
\<close>

definition isSerializable :: "class_table \<Rightarrow> ipso \<Rightarrow> string \<Rightarrow> bool" where
  "isSerializable ct target property =
     (property \<notin> doNotSerializeMeta (ct (class_of target)) \<union>
        {''options'', ''isProxy'', ''client''})"

definition getPropertyType :: "class_table \<Rightarrow> ipso \<Rightarrow> string \<Rightarrow> string option" where
  "getPropertyType ct target property =
     (case designType (ct (class_of target)) property of
        Some t \<Rightarrow> Some t
      | None \<Rightarrow>
          (if property = ''isProxy'' then Some ''Boolean''
           else if property = ''options'' \<or> property = ''client'' then Some ''Object''
           else None))"

text \<open>
  The default transforms, registered for the type name \<^verbatim>\<open>Boolean\<close> only. The lookup
  \<^verbatim>\<open>type.name in defaultSerializers\<close> is taken among the registered names; a design type
  called like a member of \<^verbatim>\<open>Object.prototype\<close> is not considered.
\<close>

definition defaultSerializers :: "string \<rightharpoonup> transform" where
  "defaultSerializers =
     [''Boolean'' \<mapsto>
        buildPropertyTransform (\<lambda>b parent. if truthy b then JNum 1 else JNum 0) None (Some True)]"

definition defaultDeserializers :: "string \<rightharpoonup> transform" where
  "defaultDeserializers =
     [''Boolean'' \<mapsto>
        buildPropertyTransform
          (\<lambda>raw parent. JBool (strict_eq raw (JNum 1) \<or> strict_eq raw (JStr ''true'') \<or>
                                 strict_eq raw (JStr ''on'') \<or> strict_eq raw (JBool True)))
          None (Some True)]"

definition getSerializer :: "class_table \<Rightarrow> ipso \<Rightarrow> string \<Rightarrow> transform option" where
  "getSerializer ct target property =
     (case serializeWithMeta (ct (class_of target)) property of
        Some t \<Rightarrow> Some t
      | None \<Rightarrow>
          (case getPropertyType ct target property of
             Some tname \<Rightarrow> defaultSerializers tname
           | None \<Rightarrow> None))"

definition getDeserializer :: "class_table \<Rightarrow> ipso \<Rightarrow> string \<Rightarrow> transform option" where
  "getDeserializer ct target property =
     (case deserializeWithMeta (ct (class_of target)) property of
        Some t \<Rightarrow> Some t
      | None \<Rightarrow>
          (case getPropertyType ct target property of
             Some tname \<Rightarrow> defaultDeserializers tname
           | None \<Rightarrow> None))"

section \<open>Reading properties of arbitrary values\<close>

text \<open>The decimal name of an array index.\<close>

fun dec :: "nat \<Rightarrow> string" where
  "dec n = (if n < 10 then [char_of (48 + n)] else dec (n div 10) @ [char_of (48 + n mod 10)])"

definition index_props :: "jsval list \<Rightarrow> props" where
  "index_props xs = zip (map dec [0..<length xs]) xs"

text \<open>
  \<^verbatim>\<open>v.hasOwnProperty(k)\<close> and \<^verbatim>\<open>v[k]\<close> for a value that is not \<^verbatim>\<open>null\<close> or \<^verbatim>\<open>undefined\<close>:
  arrays and strings own \<^verbatim>\<open>length\<close> and their indices, numbers and booleans own nothing.
\<close>

fun js_has_own :: "jsval \<Rightarrow> string \<Rightarrow> bool" where
  "js_has_own (JObj _ ps) k = prop_has ps k"
| "js_has_own (JIpso x) k = has_own x k"
| "js_has_own (JArr _ xs) k = (k = ''length'' \<or> prop_has (index_props xs) k)"
| "js_has_own (JStr s) k = (k = ''length'' \<or> prop_has (index_props (map (\<lambda>c. JStr [c]) s)) k)"
| "js_has_own _ k = False"

fun js_get :: "jsval \<Rightarrow> string \<Rightarrow> error + jsval" where
  "js_get JUndefined k = Inl TypeError"
| "js_get JNull k = Inl TypeError"
| "js_get (JObj _ ps) k = Inr (prop_get ps k)"
| "js_get (JIpso x) k = get_member x k"
| "js_get (JArr _ xs) k =
     Inr (if k = ''length'' then JNum (int (length xs)) else prop_get (index_props xs) k)"
| "js_get (JStr s) k =
     Inr (if k = ''length'' then JNum (int (length s))
          else prop_get (index_props (map (\<lambda>c. JStr [c]) s)) k)"
| "js_get _ k = Inr JUndefined"

text \<open>\<^verbatim>\<open>this.options.skipBasicSerializers\<close>, read for its truth value.\<close>

definition skipBasicSerializers :: "ipso \<Rightarrow> error + bool" where
  "skipBasicSerializers this =
     (case get_member this ''options'' of
        Inl e \<Rightarrow> Inl e
      | Inr opts \<Rightarrow>
          (case js_get opts ''skipBasicSerializers'' of
             Inl e \<Rightarrow> Inl e
           | Inr b \<Rightarrow> Inr (truthy b)))"

text \<open>
  \<^verbatim>\<open>transform && (transform.neverSkip || !this.options.skipBasicSerializers)\<close>, then
  \<^verbatim>\<open>transform(value, this)\<close>; the options are read only when \<^verbatim>\<open>neverSkip\<close> is false.
\<close>

definition apply_transform :: "ipso \<Rightarrow> transform option \<Rightarrow> jsval \<Rightarrow> error + jsval" where
  "apply_transform this tr v =
     (case tr of
        None \<Rightarrow> Inr v
      | Some t \<Rightarrow>
          (if neverSkip t then Inr (kernel t v this)
           else (case skipBasicSerializers this of
                   Inl e \<Rightarrow> Inl e
                 | Inr skip \<Rightarrow> Inr (if skip then v else kernel t v this))))"

text \<open>\<^verbatim>\<open>transform ? transform.splitArrays : true\<close>, in \<^verbatim>\<open>parse\<close> and in \<^verbatim>\<open>serialize\<close>.\<close>

definition requires_array_splitting :: "transform option \<Rightarrow> bool" where
  "requires_array_splitting tr = (case tr of Some t \<Rightarrow> splitArrays t | None \<Rightarrow> True)"

section \<open>parse\<close>

text \<open>
  The warnings \<^verbatim>\<open>parse\<close> and \<^verbatim>\<open>parseValue\<close> hand to \<^verbatim>\<open>log(..., "warn")\<close>, in order. \<^verbatim>\<open>log\<close>
  (\<^verbatim>\<open>./logger\<close>) is not among the sources; a call is recorded with its message.
\<close>

datatype log_entry =
    WarnUnknownProperty string
  | WarnObjectWas props
  | WarnNoDeserializer string

fun parseValue ::
    "ipso \<Rightarrow> string \<Rightarrow> jsval \<Rightarrow> transform option \<Rightarrow> bool \<Rightarrow> error + (jsval \<times> log_entry list)"
  and parseValues ::
    "ipso \<Rightarrow> string \<Rightarrow> jsval list \<Rightarrow> transform option \<Rightarrow> bool \<Rightarrow> error + (jsval list \<times> log_entry list)"
where
  "parseValue this propKey v tr requiresArraySplitting =
     (case (v, requiresArraySplitting) of
        (JArr a vs, True) \<Rightarrow>
          (case parseValues this propKey vs tr requiresArraySplitting of
             Inl e \<Rightarrow> Inl e
           | Inr (rs, l) \<Rightarrow> Inr (JArr Fresh rs, l))
      | _ \<Rightarrow>
          (if is_object v then
             (case tr of
                Some t \<Rightarrow> Inr (kernel t v this, [])
              | None \<Rightarrow> Inr (JUndefined, [WarnNoDeserializer propKey]))
           else
             (case apply_transform this tr v of
                Inl e \<Rightarrow> Inl e
              | Inr r \<Rightarrow> Inr (r, []))))"
| "parseValues this propKey [] tr requiresArraySplitting = Inr ([], [])"
| "parseValues this propKey (v # vs) tr requiresArraySplitting =
     (case parseValue this propKey v tr requiresArraySplitting of
        Inl e \<Rightarrow> Inl e
      | Inr (r, l) \<Rightarrow>
          (case parseValues this propKey vs tr requiresArraySplitting of
             Inl e \<Rightarrow> Inl e
           | Inr (rs, l') \<Rightarrow> Inr (r # rs, l @ l')))"

text \<open>
  The end of one round of the loop of \<^verbatim>\<open>parse\<close>: the value is parsed and then assigned,
  whatever \<^verbatim>\<open>parseValue\<close> returned.
\<close>

definition parse_assign ::
    "ipso \<Rightarrow> string \<Rightarrow> jsval \<Rightarrow> string \<Rightarrow> transform option \<Rightarrow> error + (ipso \<times> log_entry list)" where
  "parse_assign this key v propName deserializer =
     (case parseValue this key v deserializer (requires_array_splitting deserializer) of
        Inl e \<Rightarrow> Inl e
      | Inr (parsedValue, l) \<Rightarrow> Inr (set_member this propName parsedValue, l))"

text \<open>One round of the loop; \<^verbatim>\<open>!propName\<close> holds of \<^verbatim>\<open>null\<close> and of the empty string.\<close>

definition parse_entry ::
    "class_table \<Rightarrow> props \<Rightarrow> ipso \<Rightarrow> string \<Rightarrow> jsval \<Rightarrow> error + (ipso \<times> log_entry list)" where
  "parse_entry ct obj this key v =
     (case getDeserializer ct this key of
        None \<Rightarrow>
          (case lookupKeyOrProperty ct this key of
             None \<Rightarrow> Inr (this, [WarnUnknownProperty key, WarnObjectWas obj])
           | Some propName \<Rightarrow>
               (if propName = [] then Inr (this, [WarnUnknownProperty key, WarnObjectWas obj])
                else parse_assign this key v propName (getDeserializer ct this propName)))
      | Some d \<Rightarrow> parse_assign this key v key (Some d))"

fun parse_entries ::
    "class_table \<Rightarrow> props \<Rightarrow> ipso \<Rightarrow> props \<Rightarrow> error + (ipso \<times> log_entry list)" where
  "parse_entries ct obj this [] = Inr (this, [])"
| "parse_entries ct obj this ((key, v) # rest) =
     (case parse_entry ct obj this key v of
        Inl e \<Rightarrow> Inl e
      | Inr (this', l) \<Rightarrow>
          (case parse_entries ct obj this' rest of
             Inl e \<Rightarrow> Inl e
           | Inr (this'', l') \<Rightarrow> Inr (this'', l @ l')))"

definition parse :: "class_table \<Rightarrow> ipso \<Rightarrow> props \<Rightarrow> error + (ipso \<times> log_entry list)" where
  "parse ct this obj = parse_entries ct obj this (entries obj)"

section \<open>serialize\<close>

text \<open>
  \<^verbatim>\<open>isSerializedObjectEmpty\<close>: the loop over \<^verbatim>\<open>Object.keys(obj)\<close> returns \<^verbatim>\<open>false\<close> at the
  first key whose property is not required, and \<^verbatim>\<open>true\<close> when it finds none.
\<close>

fun isSerializedObjectEmpty :: "class_table \<Rightarrow> ipso \<Rightarrow> props \<Rightarrow> jsval \<Rightarrow> bool" where
  "isSerializedObjectEmpty ct this [] refObj = True"
| "isSerializedObjectEmpty ct this ((key, v) # rest) refObj =
     (if \<not> isRequired ct this refObj (lookupKeyOrProperty ct this key) then False
      else isSerializedObjectEmpty ct this rest refObj)"

text \<open>\<^verbatim>\<open>propName.startsWith("_")\<close>.\<close>

fun startsWithUnderscore :: "string \<Rightarrow> bool" where
  "startsWithUnderscore [] = False"
| "startsWithUnderscore (c # cs) = (c = CHR ''_'')"

text \<open>
  The head of \<^verbatim>\<open>serialize\<close>: the default of the parameter (\<^verbatim>\<open>undefined\<close> becomes
  \<^verbatim>\<open>null\<close>), and one \<^verbatim>\<open>unproxy()\<close> of a reference that is a proxied instance.
\<close>

definition unproxy_reference :: "jsval \<Rightarrow> jsval" where
  "unproxy_reference reference =
     (case reference of
        JUndefined \<Rightarrow> JNull
      | JIpso r \<Rightarrow> (if truthy (isProxy r) then unproxy r else JIpso r)
      | _ \<Rightarrow> reference)"

text \<open>
  \<^verbatim>\<open>refValue\<close>: \<^verbatim>\<open>null\<close>, unless the reference is not \<^verbatim>\<open>null\<close> and owns the property.
\<close>

definition reference_value :: "jsval \<Rightarrow> string \<Rightarrow> error + jsval" where
  "reference_value reference propName =
     (if \<not> is_nullish reference \<and> js_has_own reference propName
      then js_get reference propName else Inr JNull)"

text \<open>
  The reference items of an array that is split: those of a reference array of the same
  length, \<^verbatim>\<open>null\<close> for each item when there is no reference value, and the error
  otherwise.
\<close>

definition reference_items :: "jsval list \<Rightarrow> jsval \<Rightarrow> error + jsval list" where
  "reference_items vs refValue =
     (if \<not> is_nullish refValue then
        (case refValue of
           JArr b rs \<Rightarrow> (if length rs = length vs then Inr rs else Inl ArrayMismatch)
         | _ \<Rightarrow> Inl ArrayMismatch)
      else Inr (replicate (length vs) JNull))"

text \<open>\<^verbatim>\<open>value.filter(v => v != null)\<close>, and \<^verbatim>\<open>null\<close> for an array left empty.\<close>

definition remove_null_items :: "jsval list \<Rightarrow> jsval" where
  "remove_null_items xs =
     (let ys = filter (\<lambda>v. \<not> is_nullish v) xs in if ys = [] then JNull else JArr Fresh ys)"

text \<open>\<^verbatim>\<open>if (value != null) ret[key] = value\<close>.\<close>

definition emit :: "props \<Rightarrow> string option \<Rightarrow> jsval \<Rightarrow> props" where
  "emit ret key v = (if \<not> is_nullish v then prop_set ret (key_string key) v else ret)"

text \<open>
  \<^verbatim>\<open>serialize\<close> with its local function \<^verbatim>\<open>serializeValue\<close>. \<open>serializeProps\<close> is the loop
  over \<^verbatim>\<open>Object.keys(this)\<close> with the record \<^verbatim>\<open>ret\<close> built so far, \<open>serializeField\<close> the
  value the loop computes for one property (the array that is split item by item, or
  the single value), \<open>serializeItems\<close> the \<^verbatim>\<open>map\<close> over the items of an array that is
  split. In these, \<open>this\<close> is the unproxied instance \<^verbatim>\<open>serialize\<close> runs on and \<open>reference\<close>
  the reference after the head of \<^verbatim>\<open>serialize\<close>. The properties of an object have
  distinct names, so the value paired with \<open>propName\<close> is \<^verbatim>\<open>this[propName]\<close>.
\<close>

function
  serialize :: "class_table \<Rightarrow> ipso \<Rightarrow> jsval \<Rightarrow> error + props" and
  serializeProps :: "class_table \<Rightarrow> ipso \<Rightarrow> jsval \<Rightarrow> props \<Rightarrow> props \<Rightarrow> error + props" and
  serializeField :: "class_table \<Rightarrow> ipso \<Rightarrow> jsval \<Rightarrow> string \<Rightarrow> jsval \<Rightarrow> error + jsval" and
  serializeValue ::
    "class_table \<Rightarrow> ipso \<Rightarrow> jsval \<Rightarrow> string \<Rightarrow> jsval \<Rightarrow> jsval \<Rightarrow> transform option \<Rightarrow> error + jsval" and
  serializeItems ::
    "class_table \<Rightarrow> ipso \<Rightarrow> jsval \<Rightarrow> string \<Rightarrow> jsval list \<Rightarrow> jsval list \<Rightarrow> transform option
       \<Rightarrow> error + jsval list"
where
  "serialize ct (Proxy a me) reference = serialize ct me reference"
| "serialize ct (Raw a c ps) reference =
     (if truthy (prop_get ps ''isProxy'') then
        (case prop_get ps ''underlyingObject'' of
           JIpso u \<Rightarrow> serialize ct u reference
         | _ \<Rightarrow> Inl TypeError)
      else serializeProps ct (Raw a c ps) (unproxy_reference reference) ps [])"
| "serializeProps ct this reference [] ret = Inr ret"
| "serializeProps ct this reference ((propName, v) # rest) ret =
     (if \<not> startsWithUnderscore propName \<and> isSerializable ct this propName then
        (case serializeField ct this reference propName v of
           Inl e \<Rightarrow> Inl e
         | Inr v' \<Rightarrow>
             serializeProps ct this reference rest
               (emit ret (lookupKeyOrProperty ct this propName) v'))
      else serializeProps ct this reference rest ret)"
| "serializeField ct this reference propName v =
     (let serializer = getSerializer ct this propName
      in case reference_value reference propName of
           Inl e \<Rightarrow> Inl e
         | Inr refValue \<Rightarrow>
             (case (v, requires_array_splitting serializer) of
                (JArr b vs, True) \<Rightarrow>
                  (case reference_items vs refValue of
                     Inl e \<Rightarrow> Inl e
                   | Inr rs \<Rightarrow>
                       (case serializeItems ct this reference propName vs rs serializer of
                          Inl e \<Rightarrow> Inl e
                        | Inr xs \<Rightarrow> Inr (remove_null_items xs)))
              | _ \<Rightarrow> serializeValue ct this reference propName v refValue serializer))"
| "serializeValue ct this reference propName v refValue tr =
     (case v of
        JIpso x \<Rightarrow>
          (case serialize ct x refValue of
             Inl e \<Rightarrow> Inl e
           | Inr r \<Rightarrow>
               (if isSerializedObjectEmpty ct x r reference then Inr JNull
                else apply_transform this tr (JObj Fresh r)))
      | _ \<Rightarrow>
          (if \<not> is_nullish refValue \<and> \<not> isRequired ct this reference (Some propName)
                \<and> strict_eq refValue v
           then Inr JNull
           else apply_transform this tr v))"
| "serializeItems ct this reference propName [] rs tr = Inr []"
| "serializeItems ct this reference propName (v # vs) rs tr =
     (case serializeValue ct this reference propName v
             (case rs of [] \<Rightarrow> JUndefined | r # _ \<Rightarrow> r) tr of
        Inl e \<Rightarrow> Inl e
      | Inr x \<Rightarrow>
          (case serializeItems ct this reference propName vs (tl rs) tr of
             Inl e \<Rightarrow> Inl e
           | Inr xs \<Rightarrow> Inr (x # xs)))"
  by pat_completeness auto
termination
proof -
  have nested: "size u < Suc (size_list (size_prod (\<lambda>_. 0) size) ps)"
    if "prop_get ps k = JIpso u" for ps k u
    using that by (induction ps) (auto simp: prop_get_def split: if_splits)
  show ?thesis
    by (relation "measure (\<lambda>x. case x of
           Inl (Inl (ct, this, reference)) \<Rightarrow> 2 * size this
         | Inl (Inr (ct, this, reference, ps, ret)) \<Rightarrow>
             2 * size_list (size_prod (\<lambda>_. 0) size) ps
         | Inr (Inl (ct, this, reference, propName, v)) \<Rightarrow> 2 * size v + 1
         | Inr (Inr (Inl (ct, this, reference, propName, v, refValue, tr))) \<Rightarrow> 2 * size v
         | Inr (Inr (Inr (ct, this, reference, propName, vs, rs, tr))) \<Rightarrow>
             2 * size_list size vs)")
       (auto dest: nested)
qed

text \<open>
  The test that makes \<^verbatim>\<open>serialize\<close> throw, for the property \<open>propName\<close> with value \<open>v\<close>:
  the value is an array that is split, the reference value is not \<^verbatim>\<open>null\<close>, and it is
  not an array of the same length. \<open>nested_instances\<close> lists the instances \<^verbatim>\<open>serialize\<close>
  can descend into from a value: the value itself, or the items of an array.
\<close>

definition array_mismatch :: "class_table \<Rightarrow> ipso \<Rightarrow> jsval \<Rightarrow> string \<Rightarrow> jsval \<Rightarrow> bool" where
  "array_mismatch ct this reference propName v =
     (case v of
        JArr b vs \<Rightarrow>
          requires_array_splitting (getSerializer ct this propName) \<and>
          (case reference_value reference propName of
             Inl e \<Rightarrow> False
           | Inr refValue \<Rightarrow>
               \<not> is_nullish refValue \<and>
               (case refValue of JArr b' rs \<Rightarrow> length rs \<noteq> length vs | _ \<Rightarrow> True))
      | _ \<Rightarrow> False)"

fun nested_instances :: "jsval \<Rightarrow> ipso list" where
  "nested_instances (JIpso x) = [x]"
| "nested_instances (JArr b vs) = concat (map nested_instances (filter is_ipso vs))"
| "nested_instances _ = []"

section \<open>Construction\<close>


section \<open>Notions for the round trip\<close>


definition emit_all :: "class_table \<Rightarrow> ipso \<Rightarrow> props \<Rightarrow> props \<Rightarrow> props" where
  "emit_all ct this ret es = foldl (\<lambda>acc (f, s). emit acc (lookupKeyOrProperty ct this f) s) ret es"



section \<open>Example classes\<close>

text \<open>
  Two classes in the style of the device classes built on \<^verbatim>\<open>IPSOObject\<close>: a light with a
  boolean switch, a dimmer and a required transition time, and an accessory that
  holds a light, a required list of scenes and a note that has no wire key.
\<close>

definition no_meta :: class_meta where
  "no_meta = \<lparr> ipsoKeyMeta = Map.empty, requiredMeta = Map.empty,
               serializeWithMeta = Map.empty, deserializeWithMeta = Map.empty,
               doNotSerializeMeta = {}, designType = Map.empty \<rparr>"

definition light_meta :: class_meta where
  "light_meta = no_meta
     \<lparr> ipsoKeyMeta :=
         [''onOff'' \<mapsto> ''5850'', ''5850'' \<mapsto> ''onOff'',
          ''dimmer'' \<mapsto> ''5851'', ''5851'' \<mapsto> ''dimmer'',
          ''transitionTime'' \<mapsto> ''5712'', ''5712'' \<mapsto> ''transitionTime''],
       requiredMeta := [''transitionTime'' \<mapsto> ReqBool True],
       designType :=
         [''onOff'' \<mapsto> ''Boolean'', ''dimmer'' \<mapsto> ''Number'',
          ''transitionTime'' \<mapsto> ''Number''] \<rparr>"

definition accessory_meta :: class_meta where
  "accessory_meta = no_meta
     \<lparr> ipsoKeyMeta :=
         [''name'' \<mapsto> ''9001'', ''9001'' \<mapsto> ''name'',
          ''light'' \<mapsto> ''3311'', ''3311'' \<mapsto> ''light'',
          ''scenes'' \<mapsto> ''9039'', ''9039'' \<mapsto> ''scenes''],
       requiredMeta := [''scenes'' \<mapsto> ReqBool True],
       designType :=
         [''name'' \<mapsto> ''String'', ''light'' \<mapsto> ''Light'', ''scenes'' \<mapsto> ''Array''] \<rparr>"

definition example_classes :: class_table where
  "example_classes c =
     (if c = ''Light'' then light_meta
      else if c = ''Accessory'' then accessory_meta
      else no_meta)"

definition plain_options :: jsval where
  "plain_options = JObj (Loc 0) []"

text \<open>A light of which only the dimmer is set, and one of which only the transition time is.\<close>

definition dimmed_light :: ipso where
  "dimmed_light =
     Raw (Loc 1) ''Light''
       [(''isProxy'', JBool False), (''options'', plain_options), (''dimmer'', JNum 128)]"

definition timed_light :: ipso where
  "timed_light =
     Raw (Loc 2) ''Light''
       [(''isProxy'', JBool False), (''options'', plain_options), (''transitionTime'', JNum 5)]"

definition accessory_with :: "props \<Rightarrow> ipso" where
  "accessory_with fs =
     Raw (Loc 3) ''Accessory''
       ([(''isProxy'', JBool False), (''options'', plain_options)] @ fs)"

text \<open>A light whose options ask for raw values.\<close>

definition raw_mode_light :: ipso where
  "raw_mode_light =
     Raw (Loc 4) ''Light''
       [(''isProxy'', JBool False),
        (''options'', JObj (Loc 5) [(''skipBasicSerializers'', JBool True)]),
        (''onOff'', JBool True)]"


section \<open>Properties of the access layer and of merge\<close>

lemma prop_has_simps [simp]:
  "prop_has [] k = False"
  "prop_has ((k', v) # ps) k = (k' = k \<or> prop_has ps k)"
  by (auto simp: prop_has_def)

lemma prop_get_simps [simp]:
  "prop_get [] k = JUndefined"
  "prop_get ((k', v) # ps) k = (if k' = k then v else prop_get ps k)"
  by (auto simp: prop_get_def)

lemma prop_get_prop_set:
  "prop_get (prop_set ps k v) k' = (if k' = k then v else prop_get ps k')"
  by (induction ps) auto

lemma keys_prop_set:
  "map fst (prop_set ps k v) = (if prop_has ps k then map fst ps else map fst ps @ [k])"
  by (induction ps) auto

lemma prop_has_prop_set: "prop_has (prop_set ps k v) k' = (k' = k \<or> prop_has ps k')"
  by (induction ps) (auto split: if_splits)

lemma has_own_own_props: "has_own t k = prop_has (own_props t) k"
  by (induction t) simp_all

lemma own_props_set_member: "own_props (set_member t k v) = prop_set (own_props t) k v"
  by (induction t) simp_all

lemma class_of_set_member [simp]: "class_of (set_member t k v) = class_of t"
  by (induction t) simp_all

lemma ident_of_set_member: "ident_of (JIpso (set_member t k v)) = ident_of (JIpso t)"
  by (cases t) simp_all

lemma keys_merge_entries: "map fst (own_props (merge_entries t p)) = map fst (own_props t)"
  by (induction p arbitrary: t)
     (auto simp: own_props_set_member has_own_own_props keys_prop_set)

lemma class_of_merge_entries: "class_of (merge_entries t p) = class_of t"
  by (induction p arbitrary: t) auto

lemma ident_of_merge_entries: "ident_of (JIpso (merge_entries t p)) = ident_of (JIpso t)"
  by (induction p arbitrary: t) (auto simp: ident_of_set_member simp del: ident_of.simps)

lemma prop_get_merge_entries:
  "distinct (map fst p) \<Longrightarrow>
   prop_get (own_props (merge_entries t p)) k =
     (if prop_has p k \<and> has_own t k then prop_get p k else prop_get (own_props t) k)"
proof (induction p arbitrary: t)
  case Nil
  then show ?case by simp
next
  case (Cons e p)
  obtain key v where e: "e = (key, v)" by (cases e)
  from Cons.prems have d: "distinct (map fst p)" and nk: "\<not> prop_has p key"
    by (auto simp: e prop_has_def)
  let ?t = "if has_own t key then set_member t key v else t"
  have own: "has_own ?t k = has_own t k"
    by (auto simp: has_own_own_props own_props_set_member prop_has_prop_set)
  have "prop_get (own_props (merge_entries t (e # p))) k =
        (if prop_has p k \<and> has_own ?t k then prop_get p k else prop_get (own_props ?t) k)"
    using Cons.IH[OF d, of ?t] by (simp add: e)
  also have "\<dots> = (if prop_has (e # p) k \<and> has_own t k then prop_get (e # p) k
                    else prop_get (own_props t) k)"
    using nk by (auto simp: own e own_props_set_member prop_get_prop_set)
  finally show ?case .
qed

text \<open>
  C9. A wrapper made by \<^verbatim>\<open>createProxy()\<close> unwraps to exactly the instance it was made
  from, and \<^verbatim>\<open>unproxy()\<close> of an instance whose \<^verbatim>\<open>isProxy\<close> is false returns that
  instance itself, so unwrapping an unwrapped instance changes nothing.
\<close>

theorem unproxy_createProxy:
  "unproxy (createProxy x) = JIpso x \<and>
   (\<not> truthy (isProxy x) \<longrightarrow> unproxy x = JIpso x)"
  by (simp add: unproxy_def createProxy_def)

theorem unproxy_createProxy_witness:
  "unproxy (createProxy dimmed_light) = JIpso dimmed_light \<and>
   \<not> truthy (isProxy dimmed_light) \<and> unproxy dimmed_light = JIpso dimmed_light"
  using unproxy_createProxy [of dimmed_light] by (simp add: dimmed_light_def)

text \<open>
  C7. \<^verbatim>\<open>merge(p)\<close> gives a field of \<^verbatim>\<open>t\<close> the value \<^verbatim>\<open>p\<close> has for it exactly when \<^verbatim>\<open>p\<close>
  has the key and \<^verbatim>\<open>t\<close> owns the property; the value is taken as it is. Every other
  field keeps its value, no property is added (keys of \<^verbatim>\<open>p\<close> that \<^verbatim>\<open>t\<close> does not own are
  ignored), and the result is \<^verbatim>\<open>t\<close> itself: the same object of the same class.
\<close>

theorem merge_overwrites_own_fields:
  assumes "distinct (map fst p)"
  shows "prop_get (own_props (merge t p)) k =
           (if prop_has p k \<and> has_own t k then prop_get p k else prop_get (own_props t) k)
         \<and> map fst (own_props (merge t p)) = map fst (own_props t)
         \<and> ident_of (JIpso (merge t p)) = ident_of (JIpso t)
         \<and> class_of (merge t p) = class_of t"
  using assms
  by (simp add: merge_def entries_def prop_get_merge_entries keys_merge_entries
        ident_of_merge_entries class_of_merge_entries)

theorem merge_overwrites_own_fields_witness:
  "distinct (map fst [(''dimmer'', JNum 9), (''colour'', JStr ''red'')])
   \<and> prop_get (own_props (merge dimmed_light [(''dimmer'', JNum 9), (''colour'', JStr ''red'')]))
       ''dimmer'' = JNum 9
   \<and> map fst (own_props (merge dimmed_light [(''dimmer'', JNum 9), (''colour'', JStr ''red'')]))
       = [''isProxy'', ''options'', ''dimmer'']
   \<and> ident_of (JIpso (merge dimmed_light [(''dimmer'', JNum 9), (''colour'', JStr ''red'')]))
       = Some (Loc 1)
   \<and> class_of (merge dimmed_light [(''dimmer'', JNum 9), (''colour'', JStr ''red'')]) = ''Light''"
  using merge_overwrites_own_fields
          [of "[(''dimmer'', JNum 9), (''colour'', JStr ''red'')]" dimmed_light "''dimmer''"]
  by (simp add: dimmed_light_def)

section \<open>Properties of parse\<close>

lemma getDeserializer_class:
  "class_of t' = class_of t \<Longrightarrow> getDeserializer ct t' k = getDeserializer ct t k"
  by (simp add: getDeserializer_def getPropertyType_def cong: option.case_cong)

lemma lookupKeyOrProperty_class:
  "class_of t' = class_of t \<Longrightarrow> lookupKeyOrProperty ct t' k = lookupKeyOrProperty ct t k"
  by (simp add: lookupKeyOrProperty_def)

lemma class_of_parse_assign:
  "parse_assign this key v p d = Inr (t, l) \<Longrightarrow> class_of t = class_of this"
  by (auto simp: parse_assign_def requires_array_splitting_def Let_def split: sum.splits prod.splits)

lemma class_of_parse_entry:
  "parse_entry ct obj this key v = Inr (t, l) \<Longrightarrow> class_of t = class_of this"
  by (auto simp: parse_entry_def dest: class_of_parse_assign split: option.splits if_splits)

lemma class_of_parse_entries:
  "parse_entries ct obj this es = Inr (t, l) \<Longrightarrow> class_of t = class_of this"
proof (induction es arbitrary: this t l)
  case Nil
  then show ?case by simp
next
  case (Cons e es)
  obtain key v where e: "e = (key, v)" by (cases e)
  from Cons.prems obtain t1 l1 l2 where
    1: "parse_entry ct obj this key v = Inr (t1, l1)" and
    2: "parse_entries ct obj t1 es = Inr (t, l2)"
    by (auto simp: e split: sum.splits prod.splits)
  show ?case using Cons.IH[OF 2] class_of_parse_entry[OF 1] by simp
qed

lemma parse_entries_append:
  "parse_entries ct obj this (xs @ ys) =
     (case parse_entries ct obj this xs of
        Inl e \<Rightarrow> Inl e
      | Inr (t1, l1) \<Rightarrow>
          (case parse_entries ct obj t1 ys of
             Inl e \<Rightarrow> Inl e
           | Inr (t2, l2) \<Rightarrow> Inr (t2, l1 @ l2)))"
  by (induction xs arbitrary: this) (auto split: sum.splits prod.splits)

lemma parse_entry_unknown:
  assumes "getDeserializer ct this key = None" and "lookupKeyOrProperty ct this key = None"
  shows "parse_entry ct obj this key v = Inr (this, [WarnUnknownProperty key, WarnObjectWas obj])"
  using assms by (simp add: parse_entry_def)

text \<open>
  C8. A key of the wire object for which \<^verbatim>\<open>parse\<close> finds no deserializer (looked up as a
  property name) and no wire-key or field-name mapping costs two warnings and nothing
  else: the instance reaches the following keys as the preceding keys left it, nothing
  is assigned for the key, and \<^verbatim>\<open>parse\<close> fails only where the other keys make it fail.
\<close>

theorem parse_skips_unknown_key:
  assumes "getDeserializer ct this key = None" and "lookupKeyOrProperty ct this key = None"
  shows "parse ct this (before @ (key, v) # after) =
          (case parse_entries ct (before @ (key, v) # after) this before of
             Inl e \<Rightarrow> Inl e
           | Inr (t1, l1) \<Rightarrow>
              (case parse_entries ct (before @ (key, v) # after) t1 after of
                 Inl e \<Rightarrow> Inl e
               | Inr (t2, l2) \<Rightarrow>
                   Inr (t2, l1 @ [WarnUnknownProperty key,
                                  WarnObjectWas (before @ (key, v) # after)] @ l2)))"
proof (cases "parse_entries ct (before @ (key, v) # after) this before")
  case (Inl e)
  then show ?thesis by (simp add: parse_def entries_def parse_entries_append)
next
  case (Inr r)
  obtain t1 l1 where r: "r = (t1, l1)" by (cases r)
  have c: "class_of t1 = class_of this"
    using class_of_parse_entries[of ct _ this before t1 l1] Inr by (simp add: r)
  have "parse_entry ct (before @ (key, v) # after) t1 key v =
          Inr (t1, [WarnUnknownProperty key, WarnObjectWas (before @ (key, v) # after)])"
    using assms
    by (simp add: parse_entry_unknown getDeserializer_class[OF c] lookupKeyOrProperty_class[OF c])
  then show ?thesis
    using Inr
    by (cases "parse_entries ct (before @ (key, v) # after) t1 after")
       (auto simp: parse_def entries_def parse_entries_append r)
qed



theorem parse_skips_unknown_key_witness:
  "getDeserializer example_classes dimmed_light ''zz'' = None
   \<and> lookupKeyOrProperty example_classes dimmed_light ''zz'' = None
   \<and> parse example_classes dimmed_light ([(''5851'', JNum 9)] @ (''zz'', JNum 1) # [(''5850'', JNum 1)]) =
       Inr (Raw (Loc 1) ''Light''
              [(''isProxy'', JBool False), (''options'', plain_options),
               (''dimmer'', JNum 9), (''onOff'', JBool True)],
            [WarnUnknownProperty ''zz'',
             WarnObjectWas [(''5851'', JNum 9), (''zz'', JNum 1), (''5850'', JNum 1)]])"
proof -
  have h: "getDeserializer example_classes dimmed_light ''zz'' = None"
          "lookupKeyOrProperty example_classes dimmed_light ''zz'' = None"
    by (simp_all add: dimmed_light_def example_classes_def light_meta_def no_meta_def
          getDeserializer_def getPropertyType_def lookupKeyOrProperty_def)
  show ?thesis
    using parse_skips_unknown_key
            [OF h, of "[(''5851'', JNum 9)]" "JNum 1" "[(''5850'', JNum 1)]"] h
    by (simp add: dimmed_light_def example_classes_def light_meta_def no_meta_def
          parse_entry_def parse_assign_def requires_array_splitting_def apply_transform_def
          getDeserializer_def getPropertyType_def lookupKeyOrProperty_def
          defaultDeserializers_def buildPropertyTransform_def)
qed

lemma strict_eq_prim [simp]:
  "strict_eq raw (JNum n) = (raw = JNum n)"
  "strict_eq raw (JStr s) = (raw = JStr s)"
  "strict_eq raw (JBool b) = (raw = JBool b)"
  by (cases raw; auto split: option.splits ident.splits)+

text \<open>
  C5. The claim that the field is left untouched fails: \<^verbatim>\<open>parseValue\<close> logs the missing
  deserializer and returns \<^verbatim>\<open>undefined\<close>, and \<^verbatim>\<open>parse\<close> assigns that. Here the light of an
  accessory is replaced by \<^verbatim>\<open>undefined\<close>.
\<close>

theorem parse_object_without_deserializer_counterexample:
  "parse example_classes (accessory_with [(''light'', JIpso dimmed_light)])
     [(''3311'', JObj (Loc 7) [(''5851'', JNum 10)])] =
     Inr (accessory_with [(''light'', JUndefined)], [WarnNoDeserializer ''3311''])
   \<and> accessory_with [(''light'', JUndefined)] \<noteq> accessory_with [(''light'', JIpso dimmed_light)]"
  by (simp add: parse_def entries_def accessory_with_def example_classes_def accessory_meta_def no_meta_def
        parse_entry_def parse_assign_def requires_array_splitting_def getDeserializer_def getPropertyType_def
        lookupKeyOrProperty_def defaultDeserializers_def)

text \<open>
  C5, amended. For a raw value that is object-shaped (\<^verbatim>\<open>null\<close>, a plain object, an
  instance, or an array that is not being split) and no deserialize transform,
  \<^verbatim>\<open>parseValue\<close> logs one warning and returns \<^verbatim>\<open>undefined\<close>; the round of \<^verbatim>\<open>parse\<close> for a wire
  key of such a field assigns \<^verbatim>\<open>undefined\<close> to the field (without a transform \<^verbatim>\<open>parse\<close>
  splits every array, so there the value is not an array).
\<close>

theorem parse_object_without_deserializer:
  assumes "is_object v" and "\<not> (is_array v \<and> split)"
  shows "parseValue this key v None split = Inr (JUndefined, [WarnNoDeserializer key])
       \<and> (\<not> is_array v \<and> getDeserializer ct this key = None
            \<and> lookupKeyOrProperty ct this key = Some propName
            \<and> propName \<noteq> [] \<and> getDeserializer ct this propName = None
          \<longrightarrow> parse_entry ct obj this key v =
                Inr (set_member this propName JUndefined, [WarnNoDeserializer key]))"
  using assms by (cases v) (auto simp: parse_entry_def parse_assign_def requires_array_splitting_def)

theorem parse_object_without_deserializer_witness:
  "is_object (JObj (Loc 7) [(''5851'', JNum 10)]) \<and> \<not> is_array (JObj (Loc 7) [(''5851'', JNum 10)])
   \<and> parseValue (accessory_with []) ''3311'' (JObj (Loc 7) [(''5851'', JNum 10)]) None True =
       Inr (JUndefined, [WarnNoDeserializer ''3311''])
   \<and> getDeserializer example_classes (accessory_with []) ''3311'' = None
   \<and> lookupKeyOrProperty example_classes (accessory_with []) ''3311'' = Some ''light''
   \<and> getDeserializer example_classes (accessory_with []) ''light'' = None
   \<and> parse_entry example_classes [] (accessory_with []) ''3311'' (JObj (Loc 7) [(''5851'', JNum 10)]) =
       Inr (accessory_with [(''light'', JUndefined)], [WarnNoDeserializer ''3311''])"
proof -
  have h: "is_object (JObj (Loc 7) [(''5851'', JNum 10)])"
          "\<not> (is_array (JObj (Loc 7) [(''5851'', JNum 10)]) \<and> True)"
    by simp_all
  have g: "getDeserializer example_classes (accessory_with []) ''3311'' = None"
          "lookupKeyOrProperty example_classes (accessory_with []) ''3311'' = Some ''light''"
          "getDeserializer example_classes (accessory_with []) ''light'' = None"
    by (simp_all add: accessory_with_def example_classes_def accessory_meta_def no_meta_def
          getDeserializer_def getPropertyType_def lookupKeyOrProperty_def defaultDeserializers_def)
  have m: "set_member (accessory_with []) ''light'' JUndefined = accessory_with [(''light'', JUndefined)]"
    by (simp add: accessory_with_def)
  show ?thesis
    using parse_object_without_deserializer
            [OF h, where this = "accessory_with []" and key = "''3311''"
               and ct = example_classes and propName = "''light''" and obj = "[]"] g m
    by simp
qed





section \<open>Properties of serialize\<close>


lemma prop_has_emit: "prop_has ret k \<Longrightarrow> prop_has (emit ret key v) k"
  by (simp add: emit_def prop_has_prop_set)


lemma serializeProps_keeps_keys:
  "serializeProps ct this reference ps ret = Inr r \<Longrightarrow> prop_has ret k \<Longrightarrow> prop_has r k"
proof (induction ps arbitrary: ret)
  case Nil
  then show ?case by simp
next
  case (Cons p ps)
  obtain f v where p: "p = (f, v)" by (cases p)
  show ?case
  proof (cases "\<not> startsWithUnderscore f \<and> isSerializable ct this f")
    case True
    with Cons.prems(1) obtain v' where
      "serializeProps ct this reference ps (emit ret (lookupKeyOrProperty ct this f) v') = Inr r"
      by (auto simp: p split: sum.splits)
    then show ?thesis using Cons.IH Cons.prems(2) prop_has_emit by blast
  next
    case False
    with Cons.prems(1) have "serializeProps ct this reference ps ret = Inr r"
      by (auto simp: p)
    then show ?thesis using Cons.IH Cons.prems(2) by blast
  qed
qed



lemmas example_defs =
  example_classes_def light_meta_def accessory_meta_def no_meta_def plain_options_def
  dimmed_light_def timed_light_def accessory_with_def raw_mode_light_def

lemmas metadata_defs =
  isSerializable_def getSerializer_def getDeserializer_def getPropertyType_def
  lookupKeyOrProperty_def isRequired_def key_string_def defaultSerializers_def
  defaultDeserializers_def buildPropertyTransform_def requires_array_splitting_def

lemmas serialize_defs =
  reference_value_def reference_items_def remove_null_items_def unproxy_reference_def
  unproxy_def apply_transform_def skipBasicSerializers_def emit_def




text \<open>
  C10. A property that \<^verbatim>\<open>serialize\<close> processes (no leading underscore, not excluded) and
  that has no wire key is looked up as \<^verbatim>\<open>null\<close>; its serialized value, when not \<^verbatim>\<open>null\<close>,
  is stored under the key \<^verbatim>\<open>"null"\<close>, and the output of the call has that key.
\<close>

theorem field_without_wire_key:
  assumes "\<not> startsWithUnderscore propName" and "isSerializable ct this propName"
      and "lookupKeyOrProperty ct this propName = None"
      and "serializeField ct this reference propName v = Inr v'" and "\<not> is_nullish v'"
  shows "serializeProps ct this reference ((propName, v) # rest) ret =
           serializeProps ct this reference rest (prop_set ret ''null'' v')
       \<and> (\<forall>r. serializeProps ct this reference ((propName, v) # rest) ret = Inr r
              \<longrightarrow> prop_has r ''null'')"
proof -
  have 1: "serializeProps ct this reference ((propName, v) # rest) ret =
           serializeProps ct this reference rest (prop_set ret ''null'' v')"
    using assms by (simp add: emit_def key_string_def del: serializeField.simps)
  have "prop_has r ''null''"
    if "serializeProps ct this reference rest (prop_set ret ''null'' v') = Inr r" for r
    using serializeProps_keeps_keys[OF that] by (simp add: prop_has_prop_set)
  with 1 show ?thesis by simp
qed



theorem field_without_wire_key_witness:
  "\<not> startsWithUnderscore ''note'' \<and> isSerializable example_classes (accessory_with []) ''note''
   \<and> lookupKeyOrProperty example_classes (accessory_with []) ''note'' = None
   \<and> serializeField example_classes (accessory_with []) JNull ''note'' (JStr ''dusty'') = Inr (JStr ''dusty'')
   \<and> \<not> is_nullish (JStr ''dusty'')
   \<and> serializeProps example_classes (accessory_with []) JNull [(''note'', JStr ''dusty'')] [] =
       Inr [(''null'', JStr ''dusty'')]
   \<and> serialize example_classes (accessory_with [(''note'', JStr ''dusty'')]) JNull =
       Inr [(''null'', JStr ''dusty'')]"
proof -
  have h: "\<not> startsWithUnderscore ''note''"
          "isSerializable example_classes (accessory_with []) ''note''"
          "lookupKeyOrProperty example_classes (accessory_with []) ''note'' = None"
          "serializeField example_classes (accessory_with []) JNull ''note'' (JStr ''dusty'') = Inr (JStr ''dusty'')"
          "\<not> is_nullish (JStr ''dusty'')"
    by (simp_all add: example_defs metadata_defs serialize_defs)
  have s: "serialize example_classes (accessory_with [(''note'', JStr ''dusty'')]) JNull =
             Inr [(''null'', JStr ''dusty'')]"
    by (simp add: example_defs metadata_defs serialize_defs)
  show ?thesis
    using field_without_wire_key[OF h, of "[]" "[]"] h s by simp
qed




lemma proxy_items_error: "proxy_items ds = Inl e \<Longrightarrow> e = TypeError"
  by (induction ds rule: proxy_items.induct) (auto split: sum.splits)

lemma proxy_wrap_error: "proxy_wrap v = Inl e \<Longrightarrow> e = TypeError"
  by (cases v rule: proxy_wrap.cases) (auto split: sum.splits dest: proxy_items_error)

lemma get_member_error: "get_member t k = Inl e \<Longrightarrow> e = TypeError"
  by (induction t) (auto split: if_splits sum.splits dest: proxy_wrap_error)

lemma js_get_error: "js_get v k = Inl e \<Longrightarrow> e = TypeError"
  by (cases v) (auto dest: get_member_error)

lemma skipBasicSerializers_error: "skipBasicSerializers this = Inl e \<Longrightarrow> e = TypeError"
  by (auto simp: skipBasicSerializers_def split: sum.splits dest: get_member_error js_get_error)

lemma apply_transform_error: "apply_transform this tr v = Inl e \<Longrightarrow> e = TypeError"
  by (auto simp: apply_transform_def split: option.splits if_splits sum.splits
           dest: skipBasicSerializers_error)

lemma reference_value_error: "reference_value reference f = Inl e \<Longrightarrow> e = TypeError"
  by (auto simp: reference_value_def split: if_splits dest: js_get_error)

lemma serializeValue_mismatch:
  assumes "serializeValue ct this reference f v refValue tr = Inl ArrayMismatch"
  shows "\<exists>x. v = JIpso x \<and> serialize ct x refValue = Inl ArrayMismatch"
  using assms
  by (cases v) (auto split: sum.splits if_splits dest: apply_transform_error)

lemma serializeItems_mismatch:
  "serializeItems ct this reference f vs rs tr = Inl ArrayMismatch \<Longrightarrow>
   \<exists>x rv. JIpso x \<in> set vs \<and> serialize ct x rv = Inl ArrayMismatch"
proof (induction vs arbitrary: rs)
  case Nil
  then show ?case by simp
next
  case (Cons v vs)
  let ?r = "case rs of [] \<Rightarrow> JUndefined | r # _ \<Rightarrow> r"
  show ?case
  proof (cases "serializeValue ct this reference f v ?r tr")
    case (Inl e)
    with Cons.prems have "serializeValue ct this reference f v ?r tr = Inl ArrayMismatch"
      by (simp del: serializeValue.simps)
    from serializeValue_mismatch[OF this] show ?thesis by auto
  next
    case (Inr x)
    with Cons.prems have "serializeItems ct this reference f vs (tl rs) tr = Inl ArrayMismatch"
      by (simp del: serializeValue.simps split: sum.splits)
    from Cons.IH[OF this] show ?thesis by auto
  qed
qed

lemma serializeProps_mismatch:
  "serializeProps ct this reference ps ret = Inl ArrayMismatch \<Longrightarrow>
   \<exists>(f, v) \<in> set ps. \<not> startsWithUnderscore f \<and> isSerializable ct this f
       \<and> serializeField ct this reference f v = Inl ArrayMismatch"
proof (induction ps arbitrary: ret)
  case Nil
  then show ?case by simp
next
  case (Cons p ps)
  obtain f v where p: "p = (f, v)" by (cases p)
  show ?case
  proof (cases "\<not> startsWithUnderscore f \<and> isSerializable ct this f")
    case True
    show ?thesis
    proof (cases "serializeField ct this reference f v")
      case (Inl e)
      with Cons.prems True have "serializeField ct this reference f v = Inl ArrayMismatch"
        by (simp add: p del: serializeField.simps)
      with True show ?thesis by (auto simp: p simp del: serializeField.simps)
    next
      case (Inr v')
      with Cons.prems True have
        "serializeProps ct this reference ps (emit ret (lookupKeyOrProperty ct this f) v') =
           Inl ArrayMismatch"
        by (simp add: p del: serializeField.simps)
      from Cons.IH[OF this] show ?thesis by (auto simp del: serializeField.simps)
    qed
  next
    case False
    with Cons.prems have "serializeProps ct this reference ps ret = Inl ArrayMismatch"
      by (auto simp: p simp del: serializeField.simps)
    from Cons.IH[OF this] show ?thesis by (auto simp del: serializeField.simps)
  qed
qed

lemma serializeField_mismatch_sufficient:
  assumes "array_mismatch ct this reference f v"
  shows "serializeField ct this reference f v = Inl ArrayMismatch"
  using assms
  by (auto simp: array_mismatch_def reference_items_def split: jsval.splits sum.splits)

lemma serializeField_mismatch_necessary:
  assumes "serializeField ct this reference f v = Inl ArrayMismatch"
  shows "array_mismatch ct this reference f v \<or>
         (\<exists>x \<in> set (nested_instances v). \<exists>rv. serialize ct x rv = Inl ArrayMismatch)"
proof (cases "reference_value reference f")
  case (Inl e)
  with assms show ?thesis by (auto dest: reference_value_error)
next
  case (Inr refValue)
  show ?thesis
  proof (cases "is_array v \<and> requires_array_splitting (getSerializer ct this f)")
    case True
    then obtain b vs where v: "v = JArr b vs" by (cases v) auto
    show ?thesis
    proof (cases "reference_items vs refValue")
      case (Inl e)
      then have "array_mismatch ct this reference f v"
        using True Inr
        by (auto simp: v array_mismatch_def reference_items_def split: if_splits jsval.splits)
      then show ?thesis ..
    next
      case rs: (Inr rs)
      with assms True Inr have
        "serializeItems ct this reference f vs rs (getSerializer ct this f) = Inl ArrayMismatch"
        by (auto simp: v split: sum.splits)
      from serializeItems_mismatch[OF this] obtain x rv where
        "JIpso x \<in> set vs" "serialize ct x rv = Inl ArrayMismatch" by blast
      then have "\<exists>x \<in> set (nested_instances v). \<exists>rv. serialize ct x rv = Inl ArrayMismatch"
        by (force simp: v)
      then show ?thesis ..
    qed
  next
    case False
    with assms Inr have
      "serializeValue ct this reference f v refValue (getSerializer ct this f) = Inl ArrayMismatch"
      by (cases v) (auto simp del: serializeValue.simps)
    from serializeValue_mismatch[OF this] show ?thesis by auto
  qed
qed


text \<open>
  C2. Different lengths are not the only condition that throws: a reference value that
  is not an array throws as well, here the string \<^verbatim>\<open>"abc"\<close> of length 3 against an array
  of three items.
\<close>

theorem array_mismatch_counterexample:
  "reference_value (JIpso (accessory_with [(''scenes'', JStr ''abc'')])) ''scenes'' = Inr (JStr ''abc'')
   \<and> js_get (JStr ''abc'') ''length'' = Inr (JNum 3)
   \<and> js_get (JArr (Loc 8) [JStr ''a'', JStr ''b'', JStr ''c'']) ''length'' = Inr (JNum 3)
   \<and> serialize example_classes
         (accessory_with [(''scenes'', JArr (Loc 8) [JStr ''a'', JStr ''b'', JStr ''c''])])
         (JIpso (accessory_with [(''scenes'', JStr ''abc'')])) = Inl ArrayMismatch"
  by (simp add: example_defs metadata_defs serialize_defs)

text \<open>
  C2, amended. When the loop reaches a property whose value is an array that is split
  and whose reference value is neither \<^verbatim>\<open>null\<close> nor an array of the same length, the
  call ends with the error. The error has no other origin: where the value computed for
  a property is this error, either the test holds for that property or a nested call of
  \<^verbatim>\<open>serialize\<close> on an instance inside the value ended with it, and a call on an instance
  that ends with it has such a property.
\<close>

theorem array_mismatch_error:
  "(array_mismatch ct this reference f v \<longrightarrow>
      serializeField ct this reference f v = Inl ArrayMismatch
      \<and> (\<not> startsWithUnderscore f \<and> isSerializable ct this f \<longrightarrow>
           serializeProps ct this reference ((f, v) # rest) ret = Inl ArrayMismatch))
   \<and> (serializeField ct this reference f v = Inl ArrayMismatch \<longrightarrow>
        array_mismatch ct this reference f v
        \<or> (\<exists>x \<in> set (nested_instances v). \<exists>rv. serialize ct x rv = Inl ArrayMismatch))
   \<and> (\<not> truthy (prop_get ps ''isProxy'') \<and> serialize ct (Raw a c ps) ref0 = Inl ArrayMismatch \<longrightarrow>
        (\<exists>(g, w) \<in> set ps.
            \<not> startsWithUnderscore g \<and> isSerializable ct (Raw a c ps) g
            \<and> (array_mismatch ct (Raw a c ps) (unproxy_reference ref0) g w
                \<or> (\<exists>x \<in> set (nested_instances w). \<exists>rv. serialize ct x rv = Inl ArrayMismatch))))"
proof -
  have 1: "serializeField ct this reference f v = Inl ArrayMismatch"
    if "array_mismatch ct this reference f v"
    using that by (rule serializeField_mismatch_sufficient)
  have 2: "serializeProps ct this reference ((f, v) # rest) ret = Inl ArrayMismatch"
    if "array_mismatch ct this reference f v" "\<not> startsWithUnderscore f" "isSerializable ct this f"
    using 1[OF that(1)] that(2,3) by (simp del: serializeField.simps)
  have 3: "\<exists>(g, w) \<in> set ps.
            \<not> startsWithUnderscore g \<and> isSerializable ct (Raw a c ps) g
            \<and> (array_mismatch ct (Raw a c ps) (unproxy_reference ref0) g w
                \<or> (\<exists>x \<in> set (nested_instances w). \<exists>rv. serialize ct x rv = Inl ArrayMismatch))"
    if "\<not> truthy (prop_get ps ''isProxy'')" "serialize ct (Raw a c ps) ref0 = Inl ArrayMismatch"
  proof -
    from that have
      "serializeProps ct (Raw a c ps) (unproxy_reference ref0) ps [] = Inl ArrayMismatch"
      by simp
    from serializeProps_mismatch[OF this] obtain g w where
      "(g, w) \<in> set ps" "\<not> startsWithUnderscore g" "isSerializable ct (Raw a c ps) g"
      "serializeField ct (Raw a c ps) (unproxy_reference ref0) g w = Inl ArrayMismatch"
      by blast
    with serializeField_mismatch_necessary[OF this(4)] show ?thesis by blast
  qed
  from 1 2 3 serializeField_mismatch_necessary show ?thesis by blast
qed

theorem array_mismatch_error_witness:
  "array_mismatch example_classes
     (accessory_with [(''scenes'', JArr (Loc 8) [JNum 1, JNum 2, JNum 3])])
     (JIpso (accessory_with [(''scenes'', JArr (Loc 9) [JNum 1, JNum 2])]))
     ''scenes'' (JArr (Loc 8) [JNum 1, JNum 2, JNum 3])
   \<and> \<not> startsWithUnderscore ''scenes''
   \<and> isSerializable example_classes
        (accessory_with [(''scenes'', JArr (Loc 8) [JNum 1, JNum 2, JNum 3])]) ''scenes''
   \<and> serializeField example_classes
        (accessory_with [(''scenes'', JArr (Loc 8) [JNum 1, JNum 2, JNum 3])])
        (JIpso (accessory_with [(''scenes'', JArr (Loc 9) [JNum 1, JNum 2])]))
        ''scenes'' (JArr (Loc 8) [JNum 1, JNum 2, JNum 3]) = Inl ArrayMismatch
   \<and> \<not> truthy (prop_get [(''isProxy'', JBool False), (''options'', plain_options),
                           (''scenes'', JArr (Loc 8) [JNum 1, JNum 2, JNum 3])] ''isProxy'')
   \<and> serialize example_classes
        (Raw (Loc 3) ''Accessory''
           [(''isProxy'', JBool False), (''options'', plain_options),
            (''scenes'', JArr (Loc 8) [JNum 1, JNum 2, JNum 3])])
        (JIpso (accessory_with [(''scenes'', JArr (Loc 9) [JNum 1, JNum 2])])) = Inl ArrayMismatch"
proof -
  have h: "array_mismatch example_classes
     (accessory_with [(''scenes'', JArr (Loc 8) [JNum 1, JNum 2, JNum 3])])
     (JIpso (accessory_with [(''scenes'', JArr (Loc 9) [JNum 1, JNum 2])]))
     ''scenes'' (JArr (Loc 8) [JNum 1, JNum 2, JNum 3])"
     "\<not> startsWithUnderscore ''scenes''"
     "isSerializable example_classes
        (accessory_with [(''scenes'', JArr (Loc 8) [JNum 1, JNum 2, JNum 3])]) ''scenes''"
    by (simp_all add: array_mismatch_def example_defs metadata_defs serialize_defs)
  have s: "serialize example_classes
        (Raw (Loc 3) ''Accessory''
           [(''isProxy'', JBool False), (''options'', plain_options),
            (''scenes'', JArr (Loc 8) [JNum 1, JNum 2, JNum 3])])
        (JIpso (accessory_with [(''scenes'', JArr (Loc 9) [JNum 1, JNum 2])])) = Inl ArrayMismatch"
    by (simp add: example_defs metadata_defs serialize_defs)
  show ?thesis
    using array_mismatch_error
            [where ct = example_classes
               and this = "accessory_with [(''scenes'', JArr (Loc 8) [JNum 1, JNum 2, JNum 3])]"
               and reference = "JIpso (accessory_with [(''scenes'', JArr (Loc 9) [JNum 1, JNum 2])])"
               and f = "''scenes''" and v = "JArr (Loc 8) [JNum 1, JNum 2, JNum 3]"
               and rest = "[]" and ret = "[]"]
          h s
    by simp
qed

section \<open>The round trip through the wire form\<close>

lemma emit_all_Nil [simp]: "emit_all ct this ret [] = ret"
  by (simp add: emit_all_def)

lemma emit_all_Cons [simp]:
  "emit_all ct this ret ((f, s) # es) = emit_all ct this (emit ret (lookupKeyOrProperty ct this f) s) es"
  by (simp add: emit_all_def)




declare serializeField.simps [simp del] serializeValue.simps [simp del] parseValue.simps [simp del]


lemma prop_has_append [simp]: "prop_has (xs @ ys) k = (prop_has xs k \<or> prop_has ys k)"
  by (induction xs) auto





















end
